theory Spec2Isabelle
  imports Main "HOL-Library.Multiset" "HOL-Library.Product_Lexorder" "HOL-Library.Sublist"
begin

section \<open>The feedback chatbot backend (Backend/app.py)\<close>

text \<open>
  The program is a FastAPI application over three SQLAlchemy tables. Every handler is
  modelled as a function of the validated request, the environment (what \<open>uuid4()\<close> and
  \<open>datetime.utcnow()\<close> return during the request) and the database before the request;
  it returns the outcome (a failure or the response) together with the database after the
  request. A request that raises leaves the database as it was: nothing was committed.
\<close>

subsection \<open>Timestamps\<close>

text \<open>
  A naive \<open>datetime\<close>, with the fields Python gives it. Python compares two of them, and
  the database orders them, field by field from the year down to the microsecond.
\<close>

record datetime =
  year :: nat
  month :: nat
  day :: nat
  hour :: nat
  minute :: nat
  second :: nat
  microsecond :: nat

definition dt_key :: "datetime \<Rightarrow> nat \<times> nat \<times> nat \<times> nat \<times> nat \<times> nat \<times> nat" where
  "dt_key d = (year d, month d, day d, hour d, minute d, second d, microsecond d)"

definition digit :: "nat \<Rightarrow> char" where
  "digit n = ''0123456789'' ! n"

fun str_nat :: "nat \<Rightarrow> string" where
  "str_nat n = (if n < 10 then [digit n] else str_nat (n div 10) @ [digit (n mod 10)])"

declare str_nat.simps [simp del]

definition zfill :: "nat \<Rightarrow> string \<Rightarrow> string" where
  "zfill w s = replicate (w - length s) (CHR ''0'') @ s"

text \<open>\<open>datetime.isoformat()\<close>: \<open>YYYY-MM-DDTHH:MM:SS\<close>, then \<open>.ffffff\<close> unless the microsecond is 0.\<close>

definition isoformat :: "datetime \<Rightarrow> string" where
  "isoformat d =
     zfill 4 (str_nat (year d)) @ ''-'' @ zfill 2 (str_nat (month d)) @ ''-'' @
     zfill 2 (str_nat (day d)) @ ''T'' @ zfill 2 (str_nat (hour d)) @ '':'' @
     zfill 2 (str_nat (minute d)) @ '':'' @ zfill 2 (str_nat (second d)) @
     (if microsecond d = 0 then [] else ''.'' @ zfill 6 (str_nat (microsecond d)))"

subsection \<open>Tables\<close>

text \<open>
  One record per mapped class, one field per column (\<open>id\<close>, \<open>session_id\<close> and \<open>ts\<close> carry
  the table's initial, since the three classes share these names). A column the handlers
  always fill is not optional; a column they may leave NULL is an \<open>option\<close>.
\<close>

record Session =
  s_id :: string
  started_at :: datetime
  ended_at :: "datetime option"
  consented :: bool
  research_version :: "string option"
  user_agent :: "string option"
  s_notes :: "string option"

record Message =
  m_id :: string
  m_session_id :: string
  role :: string
  content :: string
  m_ts :: datetime

record FeedbackResponse =
  f_id :: string
  f_session_id :: string
  q_key :: string
  answer_numeric :: "int option"
  answer_text :: "string option"
  f_ts :: datetime

text \<open>
  \<open>DATABASE_URL\<close> selects the engine: SQLite by default, Postgres when the URL says so.
  Both columns \<open>session_id\<close> are declared \<open>ForeignKey("sessions.id")\<close>. Postgres checks a
  foreign key on every insert; SQLite checks it only after \<open>PRAGMA foreign_keys = ON\<close>,
  which the program never issues.
\<close>

datatype backend = SQLite | Postgres


text \<open>Each table is the list of its rows in the order they were inserted.\<close>

record database =
  engine :: backend
  sessions :: "Session list"
  messages :: "Message list"
  feedback_responses :: "FeedbackResponse list"

text \<open>
  What the request reads from outside: the string \<open>str(uuid4())\<close> and the clock reading
  \<open>datetime.utcnow()\<close> taken by the column defaults or by the handler.
\<close>

record env =
  uuid4 :: string
  utcnow :: datetime

text \<open>
  \<open>HTTPException(status, detail)\<close> is raised by the handlers. The other three are raised
  inside \<open>s.get\<close> or \<open>commit()\<close> by the driver or the engine; nothing catches them, so the
  caller sees the framework's server error and nothing is committed. \<open>IntegrityError\<close>: a
  constraint of the schema (primary key, foreign key) rejects the row. \<open>DataError\<close>: a
  value that Postgres cannot hold, a text with a NUL character or a number outside its
  32-bit \<open>INTEGER\<close>. \<open>OverflowError\<close>: a number outside the signed 64-bit range, which
  \<open>sqlite3\<close> cannot bind.
\<close>

datatype failure = HTTPException nat string | IntegrityError | DataError | OverflowError

datatype json =
    JNull
  | JBool bool
  | JInt int
  | JString string
  | JArray "json list"
  | JObject "(string \<times> json) list"

subsection \<open>Storage operations\<close>

definition session_ids :: "database \<Rightarrow> string list" where
  "session_ids db = map s_id (sessions db)"


text \<open>
  What the two engines accept as a parameter of a statement. The program forces the
  \<open>psycopg\<close> driver for Postgres, and Postgres text holds no NUL character: the driver
  raises \<open>DataError\<close> for a string with one. SQLite stores such a string. A column
  declared \<open>Integer\<close> is a signed 32-bit \<open>INTEGER\<close> on Postgres, which answers
  \<open>DataError\<close> out of range, and a signed 64-bit one on SQLite, where \<open>sqlite3\<close> raises
  \<open>OverflowError\<close> for a larger Python integer. Pydantic's \<open>int\<close> and \<open>str\<close> bound
  neither.
\<close>

definition NUL :: char where
  "NUL = CHR 0x00"

definition text_param_ok :: "backend \<Rightarrow> string \<Rightarrow> bool" where
  "text_param_ok b s = (case b of SQLite \<Rightarrow> True | Postgres \<Rightarrow> NUL \<notin> set s)"







text \<open>
  \<open>s.get(Session, session_id)\<close>: the row with that primary key, or \<open>None\<close>; on
  Postgres the \<open>SELECT\<close> for an identifier with a NUL character raises \<open>DataError\<close>.
  Such an identifier is never in a Postgres table (the stored identifiers are \<open>uuid4\<close>
  strings), so an identifier that is in the table is found on either engine.
\<close>

definition get_session :: "database \<Rightarrow> string \<Rightarrow> failure + Session option" where
  "get_session db sid =
     (case find (\<lambda>r. s_id r = sid) (sessions db) of
        Some r \<Rightarrow> Inr (Some r)
      | None \<Rightarrow> if text_param_ok (engine db) sid then Inr None else Inl DataError)"

text \<open>The \<open>UPDATE\<close> that \<open>commit()\<close> issues after \<open>sess.ended_at = ...\<close>.\<close>

definition update_ended_at :: "string \<Rightarrow> datetime \<Rightarrow> database \<Rightarrow> database" where
  "update_ended_at sid t db =
     db\<lparr>sessions := map (\<lambda>r. if s_id r = sid then r\<lparr>ended_at := Some t\<rparr> else r) (sessions db)\<rparr>"

subsection \<open>Request and response schemas\<close>

datatype EndSessionReq = EndSessionReq string
datatype FeedbackStartReq = FeedbackStartReq string


definition ok_true :: json where
  "ok_true = JObject [(''ok'', JBool True)]"

subsection \<open>Endpoints\<close>






fun end_session ::
    "EndSessionReq \<Rightarrow> env \<Rightarrow> database \<Rightarrow> (failure + json) \<times> database" where
  "end_session (EndSessionReq sid) e db =
     (case get_session db sid of
        Inl err \<Rightarrow> (Inl err, db)
      | Inr None \<Rightarrow> (Inl (HTTPException 404 ''Session not found''), db)
      | Inr (Some sess) \<Rightarrow> (Inr ok_true, update_ended_at (s_id sess) (utcnow e) db))"

fun feedback_start :: "FeedbackStartReq \<Rightarrow> json" where
  "feedback_start (FeedbackStartReq sid) =
     JObject
       [(''session_id'', JString sid),
        (''questions'', JArray
          [JObject [(''key'', JString ''believability''), (''type'', JString ''likert''),
                    (''label'', JString ''Is the environment believable?''),
                    (''scale_min'', JInt 1), (''scale_max'', JInt 5)],
           JObject [(''key'', JString ''realism''), (''type'', JString ''likert''),
                    (''label'', JString ''Is it realistic?''),
                    (''scale_min'', JInt 1), (''scale_max'', JInt 5)],
           JObject [(''key'', JString ''design_opt''), (''type'', JString ''likert''),
                    (''label'', JString ''Is this design optimized for your task?''),
                    (''scale_min'', JInt 1), (''scale_max'', JInt 5)],
           JObject [(''key'', JString ''ease_use''), (''type'', JString ''likert''),
                    (''label'', JString ''How easy was it to use?''),
                    (''scale_min'', JInt 1), (''scale_max'', JInt 5)],
           JObject [(''key'', JString ''trust''), (''type'', JString ''likert''),
                    (''label'', JString ''How much did you trust the responses?''),
                    (''scale_min'', JInt 1), (''scale_max'', JInt 5)],
           JObject [(''key'', JString ''task_success''), (''type'', JString ''likert''),
                    (''label'', JString ''Were you able to complete the intended task?''),
                    (''scale_min'', JInt 1), (''scale_max'', JInt 5)],
           JObject [(''key'', JString ''free_text''), (''type'', JString ''text''),
                    (''label'', JString ''Any suggestions to improve realism or usefulness?'')]])]"


subsection \<open>Exports\<close>

text \<open>
  \<open>s.query(FeedbackResponse).order_by(FeedbackResponse.ts.asc()).all()\<close>. Rows with the
  same timestamp come in insertion order.
\<close>

definition feedback_by_ts :: "database \<Rightarrow> FeedbackResponse list" where
  "feedback_by_ts db = sort_key (\<lambda>r. dt_key (f_ts r)) (feedback_responses db)"

text \<open>\<open>str.replace(old, new)\<close> for one-character \<open>old\<close> and \<open>new\<close>.\<close>

primrec replace_chr :: "char \<Rightarrow> char \<Rightarrow> string \<Rightarrow> string" where
  "replace_chr old new [] = []"
| "replace_chr old new (c # cs) = (if c = old then new else c) # replace_chr old new cs"

text \<open>
  A value handed to \<open>csv.writer.writerow\<close> is a string or an integer. The CSV document is
  modelled as the byte-order mark written first and the rows handed to the writer; the
  quoting of a row is the \<open>csv\<close> module's.
\<close>

datatype cell = CStr string | CInt int

definition csv_row :: "FeedbackResponse \<Rightarrow> cell list" where
  "csv_row r =
     [CStr (f_session_id r),
      CStr (q_key r),
      (case answer_numeric r of None \<Rightarrow> CStr '''' | Some n \<Rightarrow> CInt n),
      CStr (replace_chr (CHR 0x0A) (CHR '' '')
              (case answer_text r of None \<Rightarrow> '''' | Some t \<Rightarrow> if t = '''' then '''' else t)),
      CStr (isoformat (f_ts r))]"

definition csv_header :: "cell list" where
  "csv_header =
     [CStr ''session_id'', CStr ''q_key'', CStr ''answer_numeric'', CStr ''answer_text'',
      CStr ''ts'']"

definition bom :: string where
  "bom = [CHR 0xEF, CHR 0xBB, CHR 0xBF]"

definition export_feedback_csv :: "database \<Rightarrow> string \<times> cell list list" where
  "export_feedback_csv db = (bom, csv_header # map csv_row (feedback_by_ts db))"

definition json_row :: "FeedbackResponse \<Rightarrow> json" where
  "json_row r =
     JObject
       [(''session_id'', JString (f_session_id r)),
        (''q_key'', JString (q_key r)),
        (''answer_numeric'', (case answer_numeric r of None \<Rightarrow> JNull | Some n \<Rightarrow> JInt n)),
        (''answer_text'', (case answer_text r of None \<Rightarrow> JNull | Some t \<Rightarrow> JString t)),
        (''ts'', JString (isoformat (f_ts r)))]"

definition export_feedback_json :: "database \<Rightarrow> json" where
  "export_feedback_json db = JArray (map json_row (feedback_by_ts db))"

subsection \<open>Reading a response, serving a sequence of requests\<close>

text \<open>\<open>d.get(k)\<close> on a JSON object.\<close>

fun jget :: "string \<Rightarrow> json \<Rightarrow> json option" where
  "jget k (JObject kvs) = map_of kvs k"
| "jget k _ = None"

fun jitems :: "json \<Rightarrow> json list" where
  "jitems (JArray xs) = xs"
| "jitems _ = []"






text \<open>
  Two readings of a session row: its end timestamp is set and not before its start
  timestamp; the end timestamp of the second row is set and strictly later than that of
  the first.
\<close>

definition ended_not_before_start :: "Session \<Rightarrow> bool" where
  "ended_not_before_start r =
     (case ended_at r of None \<Rightarrow> False | Some t \<Rightarrow> dt_key (started_at r) \<le> dt_key t)"

definition ended_later :: "Session \<Rightarrow> Session \<Rightarrow> bool" where
  "ended_later r r' =
     (case ended_at r of
        None \<Rightarrow> False
      | Some t \<Rightarrow> (case ended_at r' of None \<Rightarrow> False | Some t' \<Rightarrow> dt_key t < dt_key t'))"

text \<open>The same database with every NULL \<open>answer_text\<close> replaced by the empty string.\<close>

definition null_text_as_empty :: "database \<Rightarrow> database" where
  "null_text_as_empty db =
     db\<lparr>feedback_responses :=
          map (\<lambda>r. if answer_text r = None then r\<lparr>answer_text := Some ''''\<rparr> else r)
            (feedback_responses db)\<rparr>"

subsection \<open>Sample states\<close>

definition noon :: datetime where
  "noon = \<lparr>year = 2024, month = 5, day = 1, hour = 12, minute = 0, second = 0, microsecond = 0\<rparr>"

definition half_past :: datetime where
  "half_past = \<lparr>year = 2024, month = 5, day = 1, hour = 12, minute = 30, second = 0, microsecond = 250\<rparr>"

definition one_oclock :: datetime where
  "one_oclock = \<lparr>year = 2024, month = 5, day = 1, hour = 13, minute = 0, second = 0, microsecond = 0\<rparr>"

definition session_a :: Session where
  "session_a = \<lparr>s_id = ''a'', started_at = noon, ended_at = None, consented = True,
                 research_version = Some ''v1'', user_agent = None, s_notes = None\<rparr>"

definition session_b :: Session where
  "session_b = \<lparr>s_id = ''b'', started_at = noon, ended_at = None, consented = False,
                 research_version = None, user_agent = Some ''curl'', s_notes = None\<rparr>"


definition two_sessions_db :: "backend \<Rightarrow> database" where
  "two_sessions_db b =
     \<lparr>engine = b, sessions = [session_a, session_b], messages = [], feedback_responses = []\<rparr>"

definition env_at :: "string \<Rightarrow> datetime \<Rightarrow> env" where
  "env_at u t = \<lparr>uuid4 = u, utcnow = t\<rparr>"

definition eleven :: datetime where
  "eleven = \<lparr>year = 2024, month = 5, day = 1, hour = 11, minute = 0, second = 0, microsecond = 0\<rparr>"



text \<open>Two feedback rows, inserted out of timestamp order; the second has a two-line text.\<close>

definition feedback_late :: FeedbackResponse where
  "feedback_late = \<lparr>f_id = ''f1'', f_session_id = ''a'', q_key = ''trust'', answer_numeric = Some 4,
                     answer_text = None, f_ts = one_oclock\<rparr>"

definition feedback_early :: FeedbackResponse where
  "feedback_early = \<lparr>f_id = ''f2'', f_session_id = ''b'', q_key = ''free_text'',
                      answer_numeric = None, answer_text = Some (''a'' @ [CHR 0x0A] @ ''b''),
                      f_ts = noon\<rparr>"

definition feedback_db :: database where
  "feedback_db = \<lparr>engine = SQLite, sessions = [session_a, session_b], messages = [],
                   feedback_responses = [feedback_late, feedback_early]\<rparr>"




section \<open>Properties\<close>

subsection \<open>Ending a session\<close>


lemma find_session_None: "find (\<lambda>r. s_id r = sid) (sessions db) = None \<longleftrightarrow> sid \<notin> set (session_ids db)"
  by (auto simp: session_ids_def find_None_iff)

lemma get_session_absent:
  assumes "sid \<notin> set (session_ids db)"
  shows "get_session db sid = (if text_param_ok (engine db) sid then Inr None else Inl DataError)"
proof -
  have "find (\<lambda>r. s_id r = sid) (sessions db) = None"
    using assms by (simp add: find_session_None)
  then show ?thesis by (simp add: get_session_def)
qed

lemma get_session_present:
  assumes "sid \<in> set (session_ids db)"
  shows "\<exists>r. get_session db sid = Inr (Some r) \<and> s_id r = sid"
proof -
  have "find (\<lambda>r. s_id r = sid) (sessions db) \<noteq> None"
    using assms by (simp add: find_session_None)
  then obtain r where r: "find (\<lambda>r. s_id r = sid) (sessions db) = Some r" by blast
  then have "s_id r = sid" by (auto simp: find_Some_iff)
  with r show ?thesis by (simp add: get_session_def)
qed

lemma get_session_found:
  assumes "get_session db sid = Inr (Some r)"
  shows "sid \<in> set (session_ids db)"
proof (rule ccontr)
  assume "sid \<notin> set (session_ids db)"
  then have "get_session db sid = (if text_param_ok (engine db) sid then Inr None else Inl DataError)"
    by (rule get_session_absent)
  with assms show False by (simp split: if_splits)
qed



lemma end_session_present:
  assumes "sid \<in> set (session_ids db)"
  shows "end_session (EndSessionReq sid) e db = (Inr ok_true, update_ended_at sid (utcnow e) db)"
proof -
  obtain r where r: "get_session db sid = Inr (Some r)" and "s_id r = sid"
    using get_session_present [OF assms] by blast
  then show ?thesis by simp
qed

lemma session_ids_update: "session_ids (update_ended_at sid t db) = session_ids db"
proof -
  have "map s_id (map (\<lambda>r. if s_id r = sid then r\<lparr>ended_at := Some t\<rparr> else r) xs) = map s_id xs" for xs
    by (induction xs) simp_all
  then show ?thesis by (simp add: update_ended_at_def session_ids_def)
qed

lemma find_update_ended_at:
  "find (\<lambda>r. s_id r = sid) (map (\<lambda>r. if s_id r = sid then r\<lparr>ended_at := Some t\<rparr> else r) xs)
     = map_option (\<lambda>r. r\<lparr>ended_at := Some t\<rparr>) (find (\<lambda>r. s_id r = sid) xs)"
  by (induction xs) simp_all

lemma get_session_update:
  assumes "get_session db sid = Inr (Some r)"
  shows "get_session (update_ended_at sid t db) sid = Inr (Some (r\<lparr>ended_at := Some t\<rparr>))"
proof -
  have "find (\<lambda>r. s_id r = sid) (sessions db) = Some r"
    using assms by (simp add: get_session_def split: option.splits if_splits)
  then show ?thesis
    by (simp add: get_session_def update_ended_at_def find_update_ended_at)
qed


lemma two_sessions_ids: "session_ids (two_sessions_db b) = [''a'', ''b'']"
  by (simp add: two_sessions_db_def session_ids_def session_a_def session_b_def)





lemma update_ended_at_frame:
  "engine (update_ended_at sid t db) = engine db \<and>
   messages (update_ended_at sid t db) = messages db \<and>
   feedback_responses (update_ended_at sid t db) = feedback_responses db \<and>
   length (sessions (update_ended_at sid t db)) = length (sessions db)"
  by (simp add: update_ended_at_def)

lemma update_ended_at_nth:
  assumes "i < length (sessions db)"
  shows "sessions (update_ended_at sid t db) ! i
           = (if s_id (sessions db ! i) = sid then (sessions db ! i)\<lparr>ended_at := Some t\<rparr>
              else sessions db ! i)"
  using assms by (simp add: update_ended_at_def)

text \<open>
  Claim C10. For an existing session, \<open>end_session\<close> changes nothing but that session's end
  timestamp: the sessions table keeps its length and, row by row, the identifier, start
  timestamp, consent flag, research version, user agent and notes; every row of another
  session is the same row; the messages and feedback tables (and the engine) are untouched.
\<close>

theorem end_session_frame:
  assumes "sid \<in> set (session_ids db)"
  shows "\<exists>db'. end_session (EndSessionReq sid) e db = (Inr ok_true, db') \<and>
           engine db' = engine db \<and>
           messages db' = messages db \<and>
           feedback_responses db' = feedback_responses db \<and>
           length (sessions db') = length (sessions db) \<and>
           (\<forall>i < length (sessions db).
              s_id (sessions db' ! i) = s_id (sessions db ! i) \<and>
              started_at (sessions db' ! i) = started_at (sessions db ! i) \<and>
              consented (sessions db' ! i) = consented (sessions db ! i) \<and>
              research_version (sessions db' ! i) = research_version (sessions db ! i) \<and>
              user_agent (sessions db' ! i) = user_agent (sessions db ! i) \<and>
              s_notes (sessions db' ! i) = s_notes (sessions db ! i) \<and>
              (s_id (sessions db ! i) \<noteq> sid \<longrightarrow> sessions db' ! i = sessions db ! i) \<and>
              (s_id (sessions db ! i) = sid \<longrightarrow> ended_at (sessions db' ! i) = Some (utcnow e)))"
proof -
  let ?db' = "update_ended_at sid (utcnow e) db"
  have run: "end_session (EndSessionReq sid) e db = (Inr ok_true, ?db')"
    using assms by (rule end_session_present)
  have rows: "\<forall>i < length (sessions db).
              s_id (sessions ?db' ! i) = s_id (sessions db ! i) \<and>
              started_at (sessions ?db' ! i) = started_at (sessions db ! i) \<and>
              consented (sessions ?db' ! i) = consented (sessions db ! i) \<and>
              research_version (sessions ?db' ! i) = research_version (sessions db ! i) \<and>
              user_agent (sessions ?db' ! i) = user_agent (sessions db ! i) \<and>
              s_notes (sessions ?db' ! i) = s_notes (sessions db ! i) \<and>
              (s_id (sessions db ! i) \<noteq> sid \<longrightarrow> sessions ?db' ! i = sessions db ! i) \<and>
              (s_id (sessions db ! i) = sid \<longrightarrow> ended_at (sessions ?db' ! i) = Some (utcnow e))"
    by (simp add: update_ended_at_nth)
  show ?thesis
    by (rule exI [of _ ?db']) (use run rows update_ended_at_frame [of sid "utcnow e" db] in blast)
qed

text \<open>On the sample database only the first row changes, and only in \<open>ended_at\<close>.\<close>

theorem end_session_frame_witness:
  "''a'' \<in> set (session_ids (two_sessions_db Postgres)) \<and>
   end_session (EndSessionReq ''a'') (env_at ''u'' one_oclock) (two_sessions_db Postgres)
     = (Inr ok_true,
        \<lparr>engine = Postgres, sessions = [session_a\<lparr>ended_at := Some one_oclock\<rparr>, session_b],
         messages = [], feedback_responses = []\<rparr>)"
proof -
  have h: "''a'' \<in> set (session_ids (two_sessions_db Postgres))"
    by (simp add: two_sessions_ids)
  obtain db' where
    r: "end_session (EndSessionReq ''a'') (env_at ''u'' one_oclock) (two_sessions_db Postgres)
          = (Inr ok_true, db')"
    using end_session_frame [OF h, of "env_at ''u'' one_oclock"] by blast
  have "end_session (EndSessionReq ''a'') (env_at ''u'' one_oclock) (two_sessions_db Postgres)
     = (Inr ok_true,
        \<lparr>engine = Postgres, sessions = [session_a\<lparr>ended_at := Some one_oclock\<rparr>, session_b],
         messages = [], feedback_responses = []\<rparr>)"
    by (simp add: get_session_def two_sessions_db_def session_a_def session_b_def
        update_ended_at_def env_at_def)
  with r h show ?thesis by simp
qed

subsection \<open>End timestamps\<close>

text \<open>
  Claim C3, as amended. For an existing session, \<open>end_session\<close> sets the end timestamp to
  the clock reading of the call, whatever it is, and a second call overwrites it with the
  clock reading of the second call; the start timestamp is kept. So the end timestamp is
  at or after the start timestamp exactly when the clock reading of the call is, and the
  second call leaves a strictly later end timestamp exactly when its clock reading is
  strictly later than that of the first call. The code compares nothing and never waits
  for the clock to advance.
\<close>

theorem end_session_clock_reading:
  assumes "get_session db sid = Inr (Some r0)"
  shows "\<exists>db1 r1 db2 r2.
           end_session (EndSessionReq sid) e1 db = (Inr ok_true, db1) \<and>
           get_session db1 sid = Inr (Some r1) \<and>
           ended_at r1 = Some (utcnow e1) \<and>
           started_at r1 = started_at r0 \<and>
           end_session (EndSessionReq sid) e2 db1 = (Inr ok_true, db2) \<and>
           get_session db2 sid = Inr (Some r2) \<and>
           ended_at r2 = Some (utcnow e2) \<and>
           started_at r2 = started_at r0 \<and>
           (ended_not_before_start r1 \<longleftrightarrow> dt_key (started_at r0) \<le> dt_key (utcnow e1)) \<and>
           (ended_not_before_start r2 \<longleftrightarrow> dt_key (started_at r0) \<le> dt_key (utcnow e2)) \<and>
           (ended_later r1 r2 \<longleftrightarrow> dt_key (utcnow e1) < dt_key (utcnow e2))"
proof -
  let ?db1 = "update_ended_at sid (utcnow e1) db"
  let ?r1 = "r0\<lparr>ended_at := Some (utcnow e1)\<rparr>"
  let ?db2 = "update_ended_at sid (utcnow e2) ?db1"
  let ?r2 = "?r1\<lparr>ended_at := Some (utcnow e2)\<rparr>"
  have in0: "sid \<in> set (session_ids db)"
    using assms by (rule get_session_found)
  then have in1: "sid \<in> set (session_ids ?db1)" by (simp add: session_ids_update)
  have run1: "end_session (EndSessionReq sid) e1 db = (Inr ok_true, ?db1)"
    using in0 by (rule end_session_present)
  have get1: "get_session ?db1 sid = Inr (Some ?r1)"
    using assms by (rule get_session_update)
  have run2: "end_session (EndSessionReq sid) e2 ?db1 = (Inr ok_true, ?db2)"
    using in1 by (rule end_session_present)
  have get2: "get_session ?db2 sid = Inr (Some ?r2)"
    using get1 by (rule get_session_update)
  have f: "ended_at ?r1 = Some (utcnow e1)" "started_at ?r1 = started_at r0"
    "ended_at ?r2 = Some (utcnow e2)" "started_at ?r2 = started_at r0"
    by simp_all
  have c: "ended_not_before_start ?r1 \<longleftrightarrow> dt_key (started_at r0) \<le> dt_key (utcnow e1)"
    "ended_not_before_start ?r2 \<longleftrightarrow> dt_key (started_at r0) \<le> dt_key (utcnow e2)"
    "ended_later ?r1 ?r2 \<longleftrightarrow> dt_key (utcnow e1) < dt_key (utcnow e2)"
    by (simp_all add: ended_not_before_start_def ended_later_def)
  show ?thesis
    apply (rule exI [of _ ?db1])
    apply (rule exI [of _ ?r1])
    apply (rule exI [of _ ?db2])
    apply (rule exI [of _ ?r2])
    using run1 get1 run2 get2 f c
    apply (intro conjI)
    apply assumption+
    done
qed

lemma get_session_a: "get_session (two_sessions_db b) ''a'' = Inr (Some session_a)"
  by (simp add: get_session_def two_sessions_db_def session_a_def)

lemma sample_clock_order:
  "dt_key noon \<le> dt_key half_past" "dt_key half_past < dt_key one_oclock"
  "dt_key eleven < dt_key noon" "\<not> dt_key noon \<le> dt_key eleven"
  by (simp_all add: dt_key_def noon_def half_past_def one_oclock_def eleven_def)

text \<open>A session started at noon, ended at half past twelve and again at one.\<close>

theorem end_session_clock_reading_witness:
  "get_session (two_sessions_db SQLite) ''a'' = Inr (Some session_a) \<and>
   (\<exists>db1 r1 db2 r2.
       end_session (EndSessionReq ''a'') (env_at ''u'' half_past) (two_sessions_db SQLite)
         = (Inr ok_true, db1) \<and>
       get_session db1 ''a'' = Inr (Some r1) \<and>
       ended_at r1 = Some half_past \<and>
       started_at r1 = noon \<and>
       end_session (EndSessionReq ''a'') (env_at ''v'' one_oclock) db1 = (Inr ok_true, db2) \<and>
       get_session db2 ''a'' = Inr (Some r2) \<and>
       ended_at r2 = Some one_oclock \<and>
       ended_not_before_start r1 \<and>
       ended_later r1 r2)"
proof -
  have h: "get_session (two_sessions_db SQLite) ''a'' = Inr (Some session_a)"
    by (rule get_session_a)
  have s: "started_at session_a = noon" "utcnow (env_at ''u'' half_past) = half_past"
    "utcnow (env_at ''v'' one_oclock) = one_oclock"
    by (simp_all add: session_a_def env_at_def)
  from end_session_clock_reading [OF h, of "env_at ''u'' half_past" "env_at ''v'' one_oclock"]
  obtain db1 r1 db2 r2 where
    "end_session (EndSessionReq ''a'') (env_at ''u'' half_past) (two_sessions_db SQLite)
         = (Inr ok_true, db1)"
    "get_session db1 ''a'' = Inr (Some r1)"
    "ended_at r1 = Some half_past"
    "started_at r1 = noon"
    "end_session (EndSessionReq ''a'') (env_at ''v'' one_oclock) db1 = (Inr ok_true, db2)"
    "get_session db2 ''a'' = Inr (Some r2)"
    "ended_at r2 = Some one_oclock"
    "ended_not_before_start r1"
    "ended_later r1 r2"
    using sample_clock_order by (auto simp: s)
  with h show ?thesis by blast
qed

text \<open>
  Claim C3 as stated fails in both halves, since \<open>utcnow\<close> is the wall clock and not a
  monotonic counter. A call whose clock reading is before the start timestamp (the clock
  was set back) leaves an end timestamp before the start timestamp. A second call that
  reads the same clock value as the first leaves the same end timestamp, not a later one.
\<close>

theorem end_session_clock_set_back:
  "fst (end_session (EndSessionReq ''a'') (env_at ''u'' eleven) (two_sessions_db SQLite)) = Inr ok_true \<and>
   map started_at (sessions (snd (end_session (EndSessionReq ''a'') (env_at ''u'' eleven)
      (two_sessions_db SQLite)))) = [noon, noon] \<and>
   map ended_at (sessions (snd (end_session (EndSessionReq ''a'') (env_at ''u'' eleven)
      (two_sessions_db SQLite)))) = [Some eleven, None] \<and>
   dt_key eleven < dt_key noon \<and>
   fst (end_session (EndSessionReq ''a'') (env_at ''v'' eleven)
      (snd (end_session (EndSessionReq ''a'') (env_at ''u'' eleven) (two_sessions_db SQLite)))) = Inr ok_true \<and>
   map ended_at (sessions (snd (end_session (EndSessionReq ''a'') (env_at ''v'' eleven)
      (snd (end_session (EndSessionReq ''a'') (env_at ''u'' eleven) (two_sessions_db SQLite))))))
     = [Some eleven, None] \<and>
   \<not> dt_key eleven < dt_key eleven"
  using sample_clock_order
  by (simp add: get_session_def two_sessions_db_def session_a_def session_b_def
        update_ended_at_def env_at_def)

subsection \<open>The question catalog\<close>

text \<open>
  Claim C4. For every request, \<open>feedback_start\<close> answers with the caller's session
  identifier, unchanged, and exactly 7 questions in the order \<open>believability\<close>, \<open>realism\<close>,
  \<open>design_opt\<close>, \<open>ease_use\<close>, \<open>trust\<close>, \<open>task_success\<close>, \<open>free_text\<close>; the first six are
  of type \<open>likert\<close> with \<open>scale_min\<close> 1 and \<open>scale_max\<close> 5, the last is of type \<open>text\<close>
  and has no scale. The handler has no database parameter: it reads and writes no table and
  cannot check that the session exists.
\<close>

theorem feedback_start_catalog:
  "\<exists>qs. feedback_start (FeedbackStartReq sid)
            = JObject [(''session_id'', JString sid), (''questions'', JArray qs)] \<and>
        length qs = 7 \<and>
        map (jget ''key'') qs =
          [Some (JString ''believability''), Some (JString ''realism''),
           Some (JString ''design_opt''), Some (JString ''ease_use''), Some (JString ''trust''),
           Some (JString ''task_success''), Some (JString ''free_text'')] \<and>
        map (jget ''type'') qs =
          [Some (JString ''likert''), Some (JString ''likert''), Some (JString ''likert''),
           Some (JString ''likert''), Some (JString ''likert''), Some (JString ''likert''),
           Some (JString ''text'')] \<and>
        map (jget ''scale_min'') qs =
          [Some (JInt 1), Some (JInt 1), Some (JInt 1), Some (JInt 1), Some (JInt 1),
           Some (JInt 1), None] \<and>
        map (jget ''scale_max'') qs =
          [Some (JInt 5), Some (JInt 5), Some (JInt 5), Some (JInt 5), Some (JInt 5),
           Some (JInt 5), None]"
  by simp

subsection \<open>Exports\<close>

lemma replace_chr_map: "replace_chr old new s = map (\<lambda>c. if c = old then new else c) s"
  by (induction s) simp_all

lemma replace_chr_gone: "old \<noteq> new \<Longrightarrow> old \<notin> set (replace_chr old new s)"
  by (induction s) simp_all

lemma mset_feedback_by_ts: "mset (feedback_by_ts db) = mset (feedback_responses db)"
  by (simp add: feedback_by_ts_def)

lemma sorted_feedback_by_ts: "sorted (map (\<lambda>r. dt_key (f_ts r)) (feedback_by_ts db))"
  by (simp add: feedback_by_ts_def)

lemma csv_row_cells:
  "csv_row r ! 0 = CStr (f_session_id r)"
  "csv_row r ! 1 = CStr (q_key r)"
  "csv_row r ! 4 = CStr (isoformat (f_ts r))"
  "answer_numeric r = None \<Longrightarrow> csv_row r ! 2 = CStr ''''"
  "answer_numeric r = Some n \<Longrightarrow> csv_row r ! 2 = CInt n"
  "answer_text r = None \<Longrightarrow> csv_row r ! 3 = CStr ''''"
  "answer_text r = Some t \<Longrightarrow> csv_row r ! 3 = CStr (replace_chr (CHR 0x0A) (CHR '' '') t)"
  by (simp_all add: csv_row_def)

lemma json_row_fields:
  "jget ''session_id'' (json_row r) = Some (JString (f_session_id r))"
  "jget ''q_key'' (json_row r) = Some (JString (q_key r))"
  "jget ''ts'' (json_row r) = Some (JString (isoformat (f_ts r)))"
  "answer_numeric r = None \<Longrightarrow> jget ''answer_numeric'' (json_row r) = Some JNull"
  "answer_numeric r = Some n \<Longrightarrow> jget ''answer_numeric'' (json_row r) = Some (JInt n)"
  "answer_text r = None \<Longrightarrow> jget ''answer_text'' (json_row r) = Some JNull"
  "answer_text r = Some t \<Longrightarrow> jget ''answer_text'' (json_row r) = Some (JString t)"
  by (simp_all add: json_row_def)

text \<open>
  Claim C5. For every state of the feedback table, the CSV export and the JSON export
  render one and the same sequence of rows: all rows of the table, each once, in ascending
  order of timestamp. Session identifier, question key and timestamp are rendered alike;
  a NULL \<open>answer_numeric\<close> is the empty string in the CSV and \<open>null\<close> in the JSON, a
  number is itself in both; the CSV shows \<open>answer_text\<close> with every newline replaced by a
  space, the JSON shows it as stored.
\<close>

theorem exports_agree:
  "\<exists>rows. mset rows = mset (feedback_responses db) \<and>
          sorted (map (\<lambda>r. dt_key (f_ts r)) rows) \<and>
          export_feedback_csv db = (bom, csv_header # map csv_row rows) \<and>
          export_feedback_json db = JArray (map json_row rows) \<and>
          (\<forall>r. csv_row r ! 0 = CStr (f_session_id r) \<and>
               jget ''session_id'' (json_row r) = Some (JString (f_session_id r)) \<and>
               csv_row r ! 1 = CStr (q_key r) \<and>
               jget ''q_key'' (json_row r) = Some (JString (q_key r)) \<and>
               csv_row r ! 4 = CStr (isoformat (f_ts r)) \<and>
               jget ''ts'' (json_row r) = Some (JString (isoformat (f_ts r))) \<and>
               (answer_numeric r = None \<longrightarrow>
                  csv_row r ! 2 = CStr '''' \<and> jget ''answer_numeric'' (json_row r) = Some JNull) \<and>
               (\<forall>n. answer_numeric r = Some n \<longrightarrow>
                  csv_row r ! 2 = CInt n \<and> jget ''answer_numeric'' (json_row r) = Some (JInt n)) \<and>
               (\<forall>t. answer_text r = Some t \<longrightarrow>
                  csv_row r ! 3 = CStr (map (\<lambda>c. if c = CHR 0x0A then CHR '' '' else c) t) \<and>
                  jget ''answer_text'' (json_row r) = Some (JString t)))"
proof -
  have cells: "\<forall>r. csv_row r ! 0 = CStr (f_session_id r) \<and>
               jget ''session_id'' (json_row r) = Some (JString (f_session_id r)) \<and>
               csv_row r ! 1 = CStr (q_key r) \<and>
               jget ''q_key'' (json_row r) = Some (JString (q_key r)) \<and>
               csv_row r ! 4 = CStr (isoformat (f_ts r)) \<and>
               jget ''ts'' (json_row r) = Some (JString (isoformat (f_ts r))) \<and>
               (answer_numeric r = None \<longrightarrow>
                  csv_row r ! 2 = CStr '''' \<and> jget ''answer_numeric'' (json_row r) = Some JNull) \<and>
               (\<forall>n. answer_numeric r = Some n \<longrightarrow>
                  csv_row r ! 2 = CInt n \<and> jget ''answer_numeric'' (json_row r) = Some (JInt n)) \<and>
               (\<forall>t. answer_text r = Some t \<longrightarrow>
                  csv_row r ! 3 = CStr (map (\<lambda>c. if c = CHR 0x0A then CHR '' '' else c) t) \<and>
                  jget ''answer_text'' (json_row r) = Some (JString t))"
    by (simp add: csv_row_def json_row_def replace_chr_map)
  have "mset (feedback_by_ts db) = mset (feedback_responses db)"
    by (rule mset_feedback_by_ts)
  moreover have "sorted (map (\<lambda>r. dt_key (f_ts r)) (feedback_by_ts db))"
    by (rule sorted_feedback_by_ts)
  moreover have "export_feedback_csv db = (bom, csv_header # map csv_row (feedback_by_ts db))"
    by (simp add: export_feedback_csv_def)
  moreover have "export_feedback_json db = JArray (map json_row (feedback_by_ts db))"
    by (simp add: export_feedback_json_def)
  ultimately show ?thesis using cells by blast
qed

lemma dt_key_noon_one: "dt_key noon < dt_key one_oclock"
  by (simp add: dt_key_def noon_def one_oclock_def)

lemma feedback_by_ts_sample: "feedback_by_ts feedback_db = [feedback_early, feedback_late]"
  using dt_key_noon_one
  by (simp add: feedback_by_ts_def feedback_db_def feedback_early_def feedback_late_def)


text \<open>The sample table is exported earliest row first; its two-line text is one CSV line.\<close>

theorem exports_agree_witness:
  "answer_numeric feedback_early = None \<and>
   csv_row feedback_early ! 2 = CStr '''' \<and>
   jget ''answer_numeric'' (json_row feedback_early) = Some JNull \<and>
   answer_text feedback_early = Some (''a'' @ [CHR 0x0A] @ ''b'') \<and>
   csv_row feedback_early ! 3 = CStr ''a b'' \<and>
   jget ''answer_text'' (json_row feedback_early) = Some (JString (''a'' @ [CHR 0x0A] @ ''b'')) \<and>
   answer_numeric feedback_late = Some 4 \<and>
   csv_row feedback_late ! 2 = CInt 4 \<and>
   jget ''answer_numeric'' (json_row feedback_late) = Some (JInt 4) \<and>
   export_feedback_csv feedback_db = (bom, [csv_header, csv_row feedback_early, csv_row feedback_late]) \<and>
   export_feedback_json feedback_db = JArray [json_row feedback_early, json_row feedback_late]"
proof -
  have n1: "answer_numeric feedback_early = None"
    and t1: "answer_text feedback_early = Some (''a'' @ [CHR 0x0A] @ ''b'')"
    and n2: "answer_numeric feedback_late = Some 4"
    by (simp_all add: feedback_early_def feedback_late_def)
  obtain rows where
    cells: "\<forall>r. csv_row r ! 0 = CStr (f_session_id r) \<and>
               jget ''session_id'' (json_row r) = Some (JString (f_session_id r)) \<and>
               csv_row r ! 1 = CStr (q_key r) \<and>
               jget ''q_key'' (json_row r) = Some (JString (q_key r)) \<and>
               csv_row r ! 4 = CStr (isoformat (f_ts r)) \<and>
               jget ''ts'' (json_row r) = Some (JString (isoformat (f_ts r))) \<and>
               (answer_numeric r = None \<longrightarrow>
                  csv_row r ! 2 = CStr '''' \<and> jget ''answer_numeric'' (json_row r) = Some JNull) \<and>
               (\<forall>n. answer_numeric r = Some n \<longrightarrow>
                  csv_row r ! 2 = CInt n \<and> jget ''answer_numeric'' (json_row r) = Some (JInt n)) \<and>
               (\<forall>t. answer_text r = Some t \<longrightarrow>
                  csv_row r ! 3 = CStr (map (\<lambda>c. if c = CHR 0x0A then CHR '' '' else c) t) \<and>
                  jget ''answer_text'' (json_row r) = Some (JString t))"
    using exports_agree [of feedback_db] by blast
  have a: "csv_row feedback_early ! 2 = CStr ''''"
    "jget ''answer_numeric'' (json_row feedback_early) = Some JNull"
    using cells n1 by blast+
  have b: "csv_row feedback_early ! 3
             = CStr (map (\<lambda>c. if c = CHR 0x0A then CHR '' '' else c) (''a'' @ [CHR 0x0A] @ ''b''))"
    "jget ''answer_text'' (json_row feedback_early) = Some (JString (''a'' @ [CHR 0x0A] @ ''b''))"
    using cells t1 by blast+
  have c: "csv_row feedback_late ! 2 = CInt 4"
    "jget ''answer_numeric'' (json_row feedback_late) = Some (JInt 4)"
    using cells n2 by blast+
  have b': "csv_row feedback_early ! 3 = CStr ''a b''"
    using b(1) by simp
  have d: "export_feedback_csv feedback_db = (bom, [csv_header, csv_row feedback_early, csv_row feedback_late])"
    "export_feedback_json feedback_db = JArray [json_row feedback_early, json_row feedback_late]"
    by (simp_all add: export_feedback_csv_def export_feedback_json_def feedback_by_ts_sample)
  from n1 t1 n2 a b(2) b' c d show ?thesis by blast
qed

subsection \<open>Chat messages\<close>













subsection \<open>Starting a session\<close>










subsection \<open>NULL and empty text answers\<close>

lemma insort_key_map_same_key:
  assumes "\<And>x. k (g x) = k x"
  shows "insort_key k (g x) (map g ys) = map g (insort_key k x ys)"
  by (induction ys) (simp_all add: assms)

lemma sort_key_map_same_key:
  assumes "\<And>x. k (g x) = k x"
  shows "sort_key k (map g xs) = map g (sort_key k xs)"
  by (induction xs) (simp_all add: assms insort_key_map_same_key)

lemma feedback_by_ts_null_text_as_empty:
  "feedback_by_ts (null_text_as_empty db)
     = map (\<lambda>r. if answer_text r = None then r\<lparr>answer_text := Some ''''\<rparr> else r) (feedback_by_ts db)"
proof -
  have "dt_key (f_ts (if answer_text x = None then x\<lparr>answer_text := Some ''''\<rparr> else x)) = dt_key (f_ts x)"
    for x :: FeedbackResponse
    by simp
  then show ?thesis
    unfolding feedback_by_ts_def null_text_as_empty_def
    by (simp add: sort_key_map_same_key
          [of "\<lambda>r. dt_key (f_ts r)" "\<lambda>r. if answer_text r = None then r\<lparr>answer_text := Some ''''\<rparr> else r"])
qed

lemma csv_row_null_text: "answer_text r = None \<Longrightarrow> csv_row (r\<lparr>answer_text := Some ''''\<rparr>) = csv_row r"
  by (simp add: csv_row_def)

lemma json_row_null_text: "answer_text r = None \<Longrightarrow> json_row (r\<lparr>answer_text := Some ''''\<rparr>) \<noteq> json_row r"
  by (simp add: json_row_def)

lemma export_csv_null_text_as_empty:
  "export_feedback_csv (null_text_as_empty db) = export_feedback_csv db"
proof -
  have "csv_row (if answer_text r = None then r\<lparr>answer_text := Some ''''\<rparr> else r) = csv_row r" for r
    by (simp add: csv_row_null_text)
  then show ?thesis
    by (simp add: export_feedback_csv_def feedback_by_ts_null_text_as_empty comp_def)
qed

lemma export_json_null_text_as_empty:
  assumes "r \<in> set (feedback_responses db)" and "answer_text r = None"
  shows "export_feedback_json (null_text_as_empty db) \<noteq> export_feedback_json db"
proof
  let ?g = "\<lambda>r. if answer_text r = None then r\<lparr>answer_text := Some ''''\<rparr> else r"
  assume "export_feedback_json (null_text_as_empty db) = export_feedback_json db"
  then have "map (\<lambda>r. json_row (?g r)) (feedback_by_ts db) = map json_row (feedback_by_ts db)"
    by (simp add: export_feedback_json_def feedback_by_ts_null_text_as_empty comp_def)
  moreover have "r \<in> set (feedback_by_ts db)"
    using assms(1) by (simp add: feedback_by_ts_def)
  ultimately have "json_row (?g r) = json_row r"
    by (simp only: map_eq_conv)
  then show False using assms(2) json_row_null_text [of r] by simp
qed

lemma set_feedback_by_ts: "set (feedback_by_ts db) = set (feedback_responses db)"
  by (simp add: feedback_by_ts_def)

lemma length_feedback_by_ts: "length (feedback_by_ts db) = length (feedback_responses db)"
  by (simp add: feedback_by_ts_def)

lemma csv_text_cell:
  "csv_row r ! 3
     = CStr (case answer_text r of
               None \<Rightarrow> ''''
             | Some t \<Rightarrow> map (\<lambda>c. if c = CHR 0x0A then CHR '' '' else c) t)"
  by (cases "answer_text r") (simp_all add: csv_row_def replace_chr_map)

lemma json_text_field:
  "jget ''answer_text'' (json_row r)
     = Some (case answer_text r of None \<Rightarrow> JNull | Some t \<Rightarrow> JString t)"
  by (simp add: json_row_def)

text \<open>
  Claim C9. The CSV export has one row after the header for each row of the table, and
  its text cell is the stored text with newlines as spaces, or the empty string when the
  stored text is NULL: a table row whose \<open>answer_text\<close> is NULL is in the export with an
  empty text cell, exactly as the row with the empty string in its place would be, and
  replacing every NULL text of the table by the empty string leaves the CSV export
  unchanged. The JSON export has one object for each row of the table, with \<open>null\<close> for a
  NULL text and the stored string otherwise: it shows \<open>null\<close> for the one row and \<open>""\<close>
  for the other, so it changes as soon as one row has a NULL text.
\<close>

theorem csv_hides_null_text:
  "(answer_text r = None \<longrightarrow>
      csv_row r ! 3 = CStr '''' \<and>
      csv_row (r\<lparr>answer_text := Some ''''\<rparr>) = csv_row r \<and>
      jget ''answer_text'' (json_row r) = Some JNull \<and>
      jget ''answer_text'' (json_row (r\<lparr>answer_text := Some ''''\<rparr>)) = Some (JString '''')) \<and>
   export_feedback_csv (null_text_as_empty db) = export_feedback_csv db \<and>
   (r \<in> set (feedback_responses db) \<and> answer_text r = None \<longrightarrow>
      export_feedback_json (null_text_as_empty db) \<noteq> export_feedback_json db) \<and>
   (r \<in> set (feedback_responses db) \<and> answer_text r = None \<longrightarrow>
      csv_row r \<in> set (tl (snd (export_feedback_csv db))) \<and>
      json_row r \<in> set (jitems (export_feedback_json db))) \<and>
   length (snd (export_feedback_csv db)) = Suc (length (feedback_responses db)) \<and>
   length (jitems (export_feedback_json db)) = length (feedback_responses db) \<and>
   map (\<lambda>cells. cells ! 3) (tl (snd (export_feedback_csv db)))
     = map (\<lambda>r. CStr (case answer_text r of
                        None \<Rightarrow> ''''
                      | Some t \<Rightarrow> map (\<lambda>c. if c = CHR 0x0A then CHR '' '' else c) t))
         (feedback_by_ts db) \<and>
   map (jget ''answer_text'') (jitems (export_feedback_json db))
     = map (\<lambda>r. Some (case answer_text r of None \<Rightarrow> JNull | Some t \<Rightarrow> JString t))
         (feedback_by_ts db)"
proof (intro conjI impI)
  assume n: "answer_text r = None"
  then show "csv_row r ! 3 = CStr ''''" by (simp add: csv_row_def)
  from n show "csv_row (r\<lparr>answer_text := Some ''''\<rparr>) = csv_row r" by (rule csv_row_null_text)
  from n show "jget ''answer_text'' (json_row r) = Some JNull" by (simp add: json_row_def)
  show "jget ''answer_text'' (json_row (r\<lparr>answer_text := Some ''''\<rparr>)) = Some (JString '''')"
    by (simp add: json_row_def)
next
  show "export_feedback_csv (null_text_as_empty db) = export_feedback_csv db"
    by (rule export_csv_null_text_as_empty)
next
  assume "r \<in> set (feedback_responses db) \<and> answer_text r = None"
  then show "export_feedback_json (null_text_as_empty db) \<noteq> export_feedback_json db"
    using export_json_null_text_as_empty by blast
next
  assume "r \<in> set (feedback_responses db) \<and> answer_text r = None"
  then have "r \<in> set (feedback_by_ts db)" by (simp add: set_feedback_by_ts)
  then show "csv_row r \<in> set (tl (snd (export_feedback_csv db)))"
    and "json_row r \<in> set (jitems (export_feedback_json db))"
    by (simp_all add: export_feedback_csv_def export_feedback_json_def)
next
  show "length (snd (export_feedback_csv db)) = Suc (length (feedback_responses db))"
    by (simp add: export_feedback_csv_def length_feedback_by_ts)
  show "length (jitems (export_feedback_json db)) = length (feedback_responses db)"
    by (simp add: export_feedback_json_def length_feedback_by_ts)
  show "map (\<lambda>cells. cells ! 3) (tl (snd (export_feedback_csv db)))
     = map (\<lambda>r. CStr (case answer_text r of
                        None \<Rightarrow> ''''
                      | Some t \<Rightarrow> map (\<lambda>c. if c = CHR 0x0A then CHR '' '' else c) t))
         (feedback_by_ts db)"
    by (simp add: export_feedback_csv_def comp_def csv_text_cell)
  show "map (jget ''answer_text'') (jitems (export_feedback_json db))
     = map (\<lambda>r. Some (case answer_text r of None \<Rightarrow> JNull | Some t \<Rightarrow> JString t))
         (feedback_by_ts db)"
    by (simp add: export_feedback_json_def comp_def json_text_field)
qed

text \<open>
  The sample row \<open>feedback_late\<close> has a NULL text: it is the second row of both exports,
  with an empty CSV cell and a JSON \<open>null\<close>.
\<close>

theorem csv_hides_null_text_witness:
  "answer_text feedback_late = None \<and>
   feedback_late \<in> set (feedback_responses feedback_db) \<and>
   csv_row feedback_late ! 3 = CStr '''' \<and>
   csv_row (feedback_late\<lparr>answer_text := Some ''''\<rparr>) = csv_row feedback_late \<and>
   jget ''answer_text'' (json_row feedback_late) = Some JNull \<and>
   jget ''answer_text'' (json_row (feedback_late\<lparr>answer_text := Some ''''\<rparr>)) = Some (JString '''') \<and>
   export_feedback_csv (null_text_as_empty feedback_db) = export_feedback_csv feedback_db \<and>
   export_feedback_json (null_text_as_empty feedback_db) \<noteq> export_feedback_json feedback_db \<and>
   csv_row feedback_late \<in> set (tl (snd (export_feedback_csv feedback_db))) \<and>
   json_row feedback_late \<in> set (jitems (export_feedback_json feedback_db)) \<and>
   map (\<lambda>cells. cells ! 3) (tl (snd (export_feedback_csv feedback_db))) = [CStr ''a b'', CStr ''''] \<and>
   map (jget ''answer_text'') (jitems (export_feedback_json feedback_db))
     = [Some (JString (''a'' @ [CHR 0x0A] @ ''b'')), Some JNull]"
proof -
  note t = csv_hides_null_text [of feedback_late feedback_db]
  have h1: "answer_text feedback_late = None" by (simp add: feedback_late_def)
  have h2: "feedback_late \<in> set (feedback_responses feedback_db)" by (simp add: feedback_db_def)
  have h12: "feedback_late \<in> set (feedback_responses feedback_db) \<and> answer_text feedback_late = None"
    using h1 h2 by blast
  have a: "csv_row feedback_late ! 3 = CStr '''' \<and>
      csv_row (feedback_late\<lparr>answer_text := Some ''''\<rparr>) = csv_row feedback_late \<and>
      jget ''answer_text'' (json_row feedback_late) = Some JNull \<and>
      jget ''answer_text'' (json_row (feedback_late\<lparr>answer_text := Some ''''\<rparr>)) = Some (JString '''')"
    by (rule mp [OF t [THEN conjunct1] h1])
  have b: "export_feedback_csv (null_text_as_empty feedback_db) = export_feedback_csv feedback_db"
    by (rule t [THEN conjunct2, THEN conjunct1])
  have c: "export_feedback_json (null_text_as_empty feedback_db) \<noteq> export_feedback_json feedback_db"
    by (rule mp [OF t [THEN conjunct2, THEN conjunct2, THEN conjunct1] h12])
  have d: "csv_row feedback_late \<in> set (tl (snd (export_feedback_csv feedback_db))) \<and>
      json_row feedback_late \<in> set (jitems (export_feedback_json feedback_db))"
    by (rule mp [OF t [THEN conjunct2, THEN conjunct2, THEN conjunct2, THEN conjunct1] h12])
  have texts: "answer_text feedback_early = Some (''a'' @ [CHR 0x0A] @ ''b'')"
    by (simp add: feedback_early_def)
  have e: "map (\<lambda>cells. cells ! 3) (tl (snd (export_feedback_csv feedback_db))) = [CStr ''a b'', CStr '''']"
    using t [THEN conjunct2, THEN conjunct2, THEN conjunct2, THEN conjunct2, THEN conjunct2,
        THEN conjunct2, THEN conjunct1]
    by (simp add: feedback_by_ts_sample h1 texts)
  have f: "map (jget ''answer_text'') (jitems (export_feedback_json feedback_db))
     = [Some (JString (''a'' @ [CHR 0x0A] @ ''b'')), Some JNull]"
    using t [THEN conjunct2, THEN conjunct2, THEN conjunct2, THEN conjunct2, THEN conjunct2,
        THEN conjunct2, THEN conjunct2]
    by (simp add: feedback_by_ts_sample h1 texts)
  from h1 h2 a b c d e f show ?thesis by blast
qed

subsection \<open>Feedback answers\<close>
















subsection \<open>Append semantics\<close>












end
